theory Spec2Isabelle
  imports Complex_Main
begin

section \<open>Data model of the box art customizer\<close>

text \<open>
  The customizer component (\<^verbatim>\<open>BoxArtCustomizer.tsx\<close>) keeps one record of type
  \<^verbatim>\<open>CustomizationData\<close> in component state, a list of saved records in a second
  piece of state, and mirrors that list into one key of the browser's local storage.
  JavaScript numbers are embedded as \<^typ>\<open>real\<close> (slider values) and \<^typ>\<open>int\<close>
  (\<^verbatim>\<open>Date.now()\<close>, passed in as the argument \<open>now\<close>); strings are \<^typ>\<open>string\<close>.
  Optional properties are \<^typ>\<open>'a option\<close>. The \<^verbatim>\<open>alert\<close> dialogs that the handlers
  raise have no effect on any state and are not part of the model.
\<close>

datatype platform = Xbox | Playstation | Pc | Standard

record PlatformConfig =
  baseColor :: string
  name :: string

fun PLATFORM_CONFIGS :: "platform \<Rightarrow> PlatformConfig" where
  "PLATFORM_CONFIGS Xbox = \<lparr>baseColor = ''#107C10'', name = ''Xbox''\<rparr>"
| "PLATFORM_CONFIGS Playstation = \<lparr>baseColor = ''#0070D1'', name = ''PlayStation''\<rparr>"
| "PLATFORM_CONFIGS Pc = \<lparr>baseColor = ''#606060'', name = ''PC''\<rparr>"
| "PLATFORM_CONFIGS Standard = \<lparr>baseColor = ''#707070'', name = ''Standard''\<rparr>"

record CustomizationData =
  frontImage :: string
  backImage :: string
  spineImage :: string
  frameColor :: string
  platform :: platform
  title :: string
  brightness :: real
  contrast :: real
  saturation :: real
  lastModified :: int

text \<open>
  The \<^verbatim>\<open>initialData\<close> property of the component. Its \<^verbatim>\<open>platform\<close> and \<^verbatim>\<open>title\<close>
  fields are written \<open>initPlatform\<close> and \<open>initTitle\<close> here, since a record field name is
  a constant and \<open>platform\<close> and \<open>title\<close> are the fields of \<^typ>\<open>CustomizationData\<close>.
\<close>

record initialData =
  frontImageUrl :: string
  backImageUrl :: "string option"
  spineImageUrl :: "string option"
  initPlatform :: platform
  initTitle :: "string option"

text \<open>
  JavaScript's \<^verbatim>\<open>a || b\<close> on an optional string: \<^verbatim>\<open>undefined\<close> and the empty
  string are both falsy, so the right operand is taken for either.
\<close>

fun js_or :: "string option \<Rightarrow> string \<Rightarrow> string" where
  "js_or None d = d"
| "js_or (Some s) d = (if s = [] then d else s)"

text \<open>\<^verbatim>\<open>initialData?.f\<close>: the field of the property when the property is there.\<close>

fun opt_chain :: "initialData option \<Rightarrow> (initialData \<Rightarrow> 'a option) \<Rightarrow> 'a option" where
  "opt_chain None f = None"
| "opt_chain (Some d) f = f d"

definition defaults :: "initialData option \<Rightarrow> int \<Rightarrow> CustomizationData" where
  "defaults idata now =
     \<lparr>frontImage = js_or (opt_chain idata (\<lambda>d. Some (frontImageUrl d))) '''',
      backImage = js_or (opt_chain idata backImageUrl)
                    (js_or (opt_chain idata (\<lambda>d. Some (frontImageUrl d))) ''''),
      spineImage = js_or (opt_chain idata spineImageUrl)
                     (js_or (opt_chain idata (\<lambda>d. Some (frontImageUrl d))) ''''),
      frameColor = baseColor (PLATFORM_CONFIGS
                     (case opt_chain idata (\<lambda>d. Some (initPlatform d)) of
                        None \<Rightarrow> Standard | Some p \<Rightarrow> p)),
      platform = (case opt_chain idata (\<lambda>d. Some (initPlatform d)) of
                    None \<Rightarrow> Standard | Some p \<Rightarrow> p),
      title = js_or (opt_chain idata initTitle) ''Custom Box Art'',
      brightness = 1,
      contrast = 1,
      saturation = 1,
      lastModified = now\<rparr>"

text \<open>
  The object literal above occurs twice in the source, once as the initial value of the
  \<^verbatim>\<open>customization\<close> state and once in \<^verbatim>\<open>resetCustomization\<close>; both read the
  \<^verbatim>\<open>initialData\<close> property.
\<close>

subsection \<open>The handlers that edit the current record\<close>

text \<open>
  The \<^verbatim>\<open>onChange\<close> handlers of the settings and colour tabs are anonymous functions in
  the source; each is named here after the control it belongs to. All of them are
  functional updates \<^verbatim>\<open>setCustomization(prev => ({...prev, ...}))\<close>. The ten colour
  preset buttons call the frame colour update with the preset's colour.
\<close>

definition setTitle :: "string \<Rightarrow> CustomizationData \<Rightarrow> CustomizationData" where
  "setTitle v prev = prev\<lparr>title := v\<rparr>"

definition selectPlatform :: "platform \<Rightarrow> CustomizationData \<Rightarrow> CustomizationData" where
  "selectPlatform v prev =
     prev\<lparr>platform := v, frameColor := baseColor (PLATFORM_CONFIGS v)\<rparr>"

definition setFrameColor :: "string \<Rightarrow> CustomizationData \<Rightarrow> CustomizationData" where
  "setFrameColor v prev = prev\<lparr>frameColor := v\<rparr>"

definition setBrightness :: "real \<Rightarrow> CustomizationData \<Rightarrow> CustomizationData" where
  "setBrightness v prev = prev\<lparr>brightness := v\<rparr>"

definition setContrast :: "real \<Rightarrow> CustomizationData \<Rightarrow> CustomizationData" where
  "setContrast v prev = prev\<lparr>contrast := v\<rparr>"

definition setSaturation :: "real \<Rightarrow> CustomizationData \<Rightarrow> CustomizationData" where
  "setSaturation v prev = prev\<lparr>saturation := v\<rparr>"

text \<open>
  \<^verbatim>\<open>handleImageUpload(file, type)\<close> starts a \<^verbatim>\<open>FileReader\<close>; the state changes in its
  \<^verbatim>\<open>onload\<close> callback, which receives the data URL of the file (\<open>result\<close>) and reads
  the clock then. The computed key \<^verbatim>\<open>`${type}Image`\<close> selects the slot.
\<close>

datatype slot = Front | Back | Spine

fun handleImageUpload :: "slot \<Rightarrow> string \<Rightarrow> int \<Rightarrow> CustomizationData \<Rightarrow> CustomizationData" where
  "handleImageUpload Front result now prev = prev\<lparr>frontImage := result, lastModified := now\<rparr>"
| "handleImageUpload Back result now prev = prev\<lparr>backImage := result, lastModified := now\<rparr>"
| "handleImageUpload Spine result now prev = prev\<lparr>spineImage := result, lastModified := now\<rparr>"

subsection \<open>The session: current record, saved list, local storage\<close>

text \<open>
  What \<^verbatim>\<open>localStorage.getItem(STORAGE_KEY)\<close> can hand to the component: nothing
  (\<^verbatim>\<open>null\<close>, or the empty string, which is falsy as well), a string that
  \<^verbatim>\<open>JSON.parse\<close> rejects, or the JSON text of a list of records. The component itself
  only ever writes \<^verbatim>\<open>JSON.stringify\<close> of such a list, and the round trip through JSON
  is the identity on records of strings and finite numbers.
\<close>

datatype stored = NoItem | Malformed | Items "CustomizationData list"

text \<open>
  \<^verbatim>\<open>localStorage.setItem\<close> either stores the string or throws (the quota is exceeded,
  or storage is not available). \<^verbatim>\<open>saveCustomization\<close> and \<^verbatim>\<open>deleteCustomization\<close>
  call it without a \<^verbatim>\<open>try\<close>, after \<^verbatim>\<open>setSavedCustomizations(updated)\<close>: when it throws,
  the list in memory is the new one and storage keeps what it held. The outcome of the
  call is an argument of both handlers.
\<close>

datatype setItem = Written | Threw

record session =
  customization :: CustomizationData
  savedCustomizations :: "CustomizationData list"
  localStorage :: stored

text \<open>
  Mounting the component: the two \<^verbatim>\<open>useState\<close> initial values, then the effect that
  reads local storage. A string that does not parse is logged and the list stays empty.
\<close>

definition mount :: "initialData option \<Rightarrow> int \<Rightarrow> stored \<Rightarrow> session" where
  "mount idata now ls =
     (let st = \<lparr>customization = defaults idata now, savedCustomizations = [], localStorage = ls\<rparr>
      in case ls of
           NoItem \<Rightarrow> st
         | Malformed \<Rightarrow> st
         | Items xs \<Rightarrow> st\<lparr>savedCustomizations := xs\<rparr>)"

definition setCustomization :: "(CustomizationData \<Rightarrow> CustomizationData) \<Rightarrow> session \<Rightarrow> session" where
  "setCustomization f st = st\<lparr>customization := f (customization st)\<rparr>"

definition saveCustomization :: "int \<Rightarrow> setItem \<Rightarrow> session \<Rightarrow> session" where
  "saveCustomization now w st =
     (let newCustomization = (customization st)\<lparr>lastModified := now\<rparr>;
          updated = filter (\<lambda>c. title c \<noteq> title newCustomization) (savedCustomizations st)
                      @ [newCustomization]
      in st\<lparr>savedCustomizations := updated,
            localStorage := (case w of Written \<Rightarrow> Items updated | Threw \<Rightarrow> localStorage st)\<rparr>)"

definition loadCustomization :: "CustomizationData \<Rightarrow> session \<Rightarrow> session" where
  "loadCustomization data st = st\<lparr>customization := data\<rparr>"

definition deleteCustomization :: "string \<Rightarrow> setItem \<Rightarrow> session \<Rightarrow> session" where
  "deleteCustomization t w st =
     (let updated = filter (\<lambda>c. title c \<noteq> t) (savedCustomizations st)
      in st\<lparr>savedCustomizations := updated,
            localStorage := (case w of Written \<Rightarrow> Items updated | Threw \<Rightarrow> localStorage st)\<rparr>)"

definition resetCustomization :: "initialData option \<Rightarrow> int \<Rightarrow> session \<Rightarrow> session" where
  "resetCustomization idata now st = st\<lparr>customization := defaults idata now\<rparr>"

text \<open>
  The events of the panel. The saved tab renders one card per entry of the saved list;
  its load button calls \<^verbatim>\<open>loadCustomization(saved)\<close> and its delete button
  \<^verbatim>\<open>deleteCustomization(saved.title)\<close> with the entry of that card, so both events carry
  the index of a card. An index with no card is an event that cannot happen; the state
  stays as it is. \<open>now\<close> is the clock at the event, read by the handlers that call
  \<^verbatim>\<open>Date.now()\<close>. The save and delete clicks carry the outcome of the storage write
  they lead to.
\<close>

datatype event =
    TitleInput string
  | PlatformSelect platform
  | ColorInput string
  | BrightnessSlider real
  | ContrastSlider real
  | SaturationSlider real
  | UploadLoaded slot string
  | SaveClick setItem
  | LoadClick nat
  | DeleteClick nat setItem
  | ResetClick

fun handle :: "initialData option \<Rightarrow> int \<Rightarrow> event \<Rightarrow> session \<Rightarrow> session" where
  "handle idata now (TitleInput v) st = setCustomization (setTitle v) st"
| "handle idata now (PlatformSelect v) st = setCustomization (selectPlatform v) st"
| "handle idata now (ColorInput v) st = setCustomization (setFrameColor v) st"
| "handle idata now (BrightnessSlider v) st = setCustomization (setBrightness v) st"
| "handle idata now (ContrastSlider v) st = setCustomization (setContrast v) st"
| "handle idata now (SaturationSlider v) st = setCustomization (setSaturation v) st"
| "handle idata now (UploadLoaded s result) st =
     setCustomization (handleImageUpload s result now) st"
| "handle idata now (SaveClick w) st = saveCustomization now w st"
| "handle idata now (LoadClick i) st =
     (if i < length (savedCustomizations st)
      then loadCustomization (savedCustomizations st ! i) st else st)"
| "handle idata now (DeleteClick i w) st =
     (if i < length (savedCustomizations st)
      then deleteCustomization (title (savedCustomizations st ! i)) w st else st)"
| "handle idata now ResetClick st = resetCustomization idata now st"


text \<open>The current record once an event has been handled.\<close>

definition recordAfter :: "initialData option \<Rightarrow> int \<Rightarrow> event \<Rightarrow> session \<Rightarrow> CustomizationData" where
  "recordAfter idata now ev st = customization (handle idata now ev st)"

text \<open>The image slot of a record that an upload of the given kind writes.\<close>

fun slotImage :: "slot \<Rightarrow> CustomizationData \<Rightarrow> string" where
  "slotImage Front c = frontImage c"
| "slotImage Back c = backImage c"
| "slotImage Spine c = spineImage c"




section \<open>The preview scene of the customizer\<close>

text \<open>
  \<^verbatim>\<open>CustomizableBoxModel\<close> returns a group holding one mesh: a box geometry and six
  materials, attached as \<^verbatim>\<open>material-0\<close> to \<^verbatim>\<open>material-5\<close>. A material is given either a
  \<^verbatim>\<open>color\<close> or a \<^verbatim>\<open>map\<close>. A texture is identified with the image source it was
  loaded from. The component also takes brightness, contrast, saturation and platform.
\<close>

datatype material = ColorMaterial string | MapMaterial string

record boxScene =
  groupRotation :: "real \<times> real \<times> real"
  boxGeometry :: "real \<times> real \<times> real"
  materials :: "material list"

definition useTexture :: "string \<Rightarrow> string" where
  "useTexture url = url"

definition CustomizableBoxModel ::
  "string \<Rightarrow> string \<Rightarrow> string \<Rightarrow> string \<Rightarrow> real \<Rightarrow> real \<Rightarrow> real \<Rightarrow> platform \<Rightarrow> boxScene" where
  "CustomizableBoxModel front back spine color b c s pf =
     (let width = 2.6; height = 3.5; depth = 0.3;
          frontTexture = useTexture front;
          backTexture = useTexture back;
          spineTexture = useTexture spine
      in \<lparr>groupRotation = (- 0.2, 0.4, 0),
          boxGeometry = (width, height, depth),
          materials = [ColorMaterial color, MapMaterial spineTexture, ColorMaterial color,
                       ColorMaterial color, MapMaterial frontTexture, MapMaterial backTexture]\<rparr>)"

text \<open>
  The effect commented \<^verbatim>\<open>Apply image filters\<close>. Brightness, contrast and saturation
  occur in its dependency list only; its body sets \<^verbatim>\<open>needsUpdate = true\<close> on each of
  the three textures. The result is the list of textures so marked.
\<close>

definition imageFilterEffect :: "real \<Rightarrow> real \<Rightarrow> real \<Rightarrow> string \<Rightarrow> string \<Rightarrow> string \<Rightarrow> string list" where
  "imageFilterEffect b c s frontTexture backTexture spineTexture =
     [frontTexture, backTexture, spineTexture]"

text \<open>The call of the component in the customizer, which hands over the current record.\<close>

definition preview :: "CustomizationData \<Rightarrow> boxScene" where
  "preview c = CustomizableBoxModel (frontImage c) (backImage c) (spineImage c) (frameColor c)
                 (brightness c) (contrast c) (saturation c) (platform c)"

definition previewEffect :: "CustomizationData \<Rightarrow> string list" where
  "previewEffect c = imageFilterEffect (brightness c) (contrast c) (saturation c)
                       (useTexture (frontImage c)) (useTexture (backImage c))
                       (useTexture (spineImage c))"

section \<open>The box model of the viewer\<close>

text \<open>
  \<^verbatim>\<open>BoxArtModel\<close> (\<^verbatim>\<open>BoxArt3DViewer.tsx\<close>) animates a group: its three rotation angles
  and its scale, which is only ever set uniformly. The angles are real numbers here;
  the rounding of IEEE doubles is not part of the model. \<^verbatim>\<open>groupRef.current\<close> is
  \<^verbatim>\<open>null\<close> until the group is mounted: the rotation is guarded by a null test, the
  scale is not, and \<^verbatim>\<open>setScalar\<close> on \<^verbatim>\<open>null\<close> raises a \<^verbatim>\<open>TypeError\<close>.
\<close>

record group3 =
  rotation_x :: real
  rotation_y :: real
  rotation_z :: real
  scale :: real

datatype js_error = TypeError

record BoxArtModel =
  groupRef :: "group3 option"
  hovered :: bool
  autoRotate :: bool

text \<open>
  The frame callback. It receives the elapsed time of the clock and runs once per
  rendered frame.
\<close>

definition setScalar :: "real \<Rightarrow> group3 \<Rightarrow> group3" where
  "setScalar v g = g\<lparr>scale := v\<rparr>"

definition useFrame :: "real \<Rightarrow> BoxArtModel \<Rightarrow> js_error + BoxArtModel" where
  "useFrame elapsedTime m =
     (let cur = (case groupRef m of
                   None \<Rightarrow> None
                 | Some g \<Rightarrow>
                     if autoRotate m
                     then Some (g\<lparr>rotation_y := rotation_y g + 0.01,
                                 rotation_x := sin (elapsedTime * 0.4) * 0.5,
                                 rotation_z := sin (elapsedTime * 0.3) * 0.2\<rparr>)
                     else Some g)
      in if hovered m \<and> \<not> autoRotate m
         then (case cur of None \<Rightarrow> Inl TypeError
               | Some g \<Rightarrow> Inr (m\<lparr>groupRef := Some (setScalar 1.05 g)\<rparr>))
         else if \<not> autoRotate m
         then (case cur of None \<Rightarrow> Inl TypeError
               | Some g \<Rightarrow> Inr (m\<lparr>groupRef := Some (setScalar 1 g)\<rparr>))
         else Inr (m\<lparr>groupRef := cur\<rparr>))"

text \<open>
  The pointer handlers of the group; \<^verbatim>\<open>onClick\<close> is \<^verbatim>\<open>toggleAutoRotate\<close>, which
  sets the flag to the negation of the value it had at the last render. A click is
  handled after the render that followed the previous click, so that value is the
  current one.
\<close>

definition toggleAutoRotate :: "BoxArtModel \<Rightarrow> BoxArtModel" where
  "toggleAutoRotate m = m\<lparr>autoRotate := \<not> autoRotate m\<rparr>"

definition onPointerOver :: "BoxArtModel \<Rightarrow> BoxArtModel" where
  "onPointerOver m = m\<lparr>hovered := True\<rparr>"

definition onPointerOut :: "BoxArtModel \<Rightarrow> BoxArtModel" where
  "onPointerOut m = m\<lparr>hovered := False\<rparr>"

text \<open>A run of frames at the given clock values; it stops at the first error.\<close>

fun frames :: "real list \<Rightarrow> BoxArtModel \<Rightarrow> js_error + BoxArtModel" where
  "frames [] m = Inr m"
| "frames (t # ts) m = (case useFrame t m of Inl e \<Rightarrow> Inl e | Inr m' \<Rightarrow> frames ts m')"

section \<open>Concrete inputs\<close>

definition xbox_init :: initialData where
  "xbox_init = \<lparr>frontImageUrl = ''front.jpg'', backImageUrl = None, spineImageUrl = None,
                 initPlatform = Xbox, initTitle = Some ''Halo''\<rparr>"

definition gold_halo :: CustomizationData where
  "gold_halo = \<lparr>frontImage = ''front.jpg'', backImage = ''back.jpg'', spineImage = ''spine.jpg'',
                 frameColor = ''#FFD700'', platform = Xbox, title = ''Halo'',
                 brightness = 1.5, contrast = 0.8, saturation = 0, lastModified = 1000\<rparr>"

definition old_halo :: CustomizationData where
  "old_halo = \<lparr>frontImage = ''old.jpg'', backImage = ''old.jpg'', spineImage = ''old.jpg'',
                frameColor = ''#000000'', platform = Pc, title = ''Halo'',
                brightness = 1, contrast = 1, saturation = 1, lastModified = 500\<rparr>"

definition doom :: CustomizationData where
  "doom = \<lparr>frontImage = ''doom.jpg'', backImage = ''doom.jpg'', spineImage = ''doom.jpg'',
            frameColor = ''#E60012'', platform = Pc, title = ''Doom'',
            brightness = 1, contrast = 1, saturation = 1, lastModified = 700\<rparr>"

definition halo_session :: session where
  "halo_session = \<lparr>customization = gold_halo, savedCustomizations = [old_halo, doom],
                    localStorage = Items [old_halo, doom]\<rparr>"


text \<open>
  The viewer's model once mounted: the group carries the \<^verbatim>\<open>rotation\<close> property of the
  JSX, auto-rotation starts enabled.
\<close>

definition BoxArtModel_mounted :: BoxArtModel where
  "BoxArtModel_mounted =
     \<lparr>groupRef = Some \<lparr>rotation_x = - 0.1, rotation_y = 0.3, rotation_z = 0, scale = 1\<rparr>,
      hovered = False, autoRotate = True\<rparr>"

section \<open>Construction and platform selection\<close>

text \<open>
  C6. A session constructed with initial platform xbox (the property carries no frame
  colour) starts with frame colour \<open>#107C10\<close>; selecting playstation in the settings
  control sets the platform to playstation and the frame colour to \<open>#0070D1\<close>, whatever
  the record held before.
\<close>

theorem xbox_initial_color_and_playstation_select:
  "frameColor (customization (mount (Some (d\<lparr>initPlatform := Xbox\<rparr>)) now ls)) = ''#107C10''
   \<and> platform (customization (handle idata t (PlatformSelect Playstation) st)) = Playstation
   \<and> frameColor (customization (handle idata t (PlatformSelect Playstation) st)) = ''#0070D1''"
  by (cases ls) (simp_all add: mount_def defaults_def setCustomization_def selectPlatform_def)

section \<open>Reset\<close>

text \<open>
  C1, as stated, at a concrete session: opened on xbox, the user selects playstation and
  then resets. The frame colour after the reset is not the base colour of the platform
  the record held when reset was called.
\<close>

theorem reset_color_counterexample:
  "frameColor (customization
      (handle (Some xbox_init) 3000 ResetClick
         (handle (Some xbox_init) 2000 (PlatformSelect Playstation)
            (mount (Some xbox_init) 1000 NoItem))))
   \<noteq> baseColor (PLATFORM_CONFIGS (platform (customization
         (handle (Some xbox_init) 2000 (PlatformSelect Playstation)
            (mount (Some xbox_init) 1000 NoItem)))))"
  by (simp add: mount_def defaults_def xbox_init_def setCustomization_def selectPlatform_def
      resetCustomization_def)

text \<open>
  C1, amended. Reset puts the record back on the platform of the \<^verbatim>\<open>initialData\<close>
  property (standard when the property is absent) and sets the frame colour to the base
  colour of that platform, which is the platform the record holds after the reset;
  brightness, contrast and saturation become 1.
\<close>

theorem reset_restores_initial_platform_color:
  "platform (customization (handle idata now ResetClick st))
     = (case idata of None \<Rightarrow> Standard | Some d \<Rightarrow> initPlatform d)
   \<and> frameColor (customization (handle idata now ResetClick st))
     = baseColor (PLATFORM_CONFIGS (platform (customization (handle idata now ResetClick st))))
   \<and> brightness (customization (handle idata now ResetClick st)) = 1
   \<and> contrast (customization (handle idata now ResetClick st)) = 1
   \<and> saturation (customization (handle idata now ResetClick st)) = 1"
  by (cases idata) (simp_all add: resetCustomization_def defaults_def)

section \<open>Editing the current record\<close>

text \<open>
  C2, as stated, at a concrete session whose record has a custom frame colour and was
  last stamped at 1000: selecting a platform at time 2000 replaces the frame colour as
  well as the platform, and typing a title at time 2000 leaves the stamp at 1000.
\<close>

theorem update_counterexample:
  "frameColor (recordAfter None 2000 (PlatformSelect Playstation) halo_session)
     \<noteq> frameColor (customization halo_session)
   \<and> lastModified (recordAfter None 2000 (TitleInput ''Halo 2'') halo_session) \<noteq> 2000"
  by (simp add: recordAfter_def halo_session_def gold_halo_def setCustomization_def
      selectPlatform_def setTitle_def)

text \<open>
  C2, amended. Every edit is a total function of the session. Typing a title, entering a
  frame colour and moving a slider each replace their own field; selecting a platform
  replaces the platform and the frame colour; a finished upload replaces its image slot
  and sets \<open>lastModified\<close> to the time of the upload. In each case every other field
  apart from \<open>lastModified\<close> keeps its value (the records agree once the replaced fields
  are put back and \<open>lastModified\<close> is set to a common value \<open>t\<close>). Nothing is said here
  about \<open>lastModified\<close> after the edits other than the upload.
\<close>

theorem update_replaces_its_field:
  "title (recordAfter idata now (TitleInput v) st) = v
   \<and> (recordAfter idata now (TitleInput v) st)
        \<lparr>title := title (customization st), lastModified := t\<rparr>
      = (customization st)\<lparr>lastModified := t\<rparr>
   \<and> frameColor (recordAfter idata now (ColorInput v) st) = v
   \<and> (recordAfter idata now (ColorInput v) st)
        \<lparr>frameColor := frameColor (customization st), lastModified := t\<rparr>
      = (customization st)\<lparr>lastModified := t\<rparr>
   \<and> brightness (recordAfter idata now (BrightnessSlider x) st) = x
   \<and> (recordAfter idata now (BrightnessSlider x) st)
        \<lparr>brightness := brightness (customization st), lastModified := t\<rparr>
      = (customization st)\<lparr>lastModified := t\<rparr>
   \<and> contrast (recordAfter idata now (ContrastSlider x) st) = x
   \<and> (recordAfter idata now (ContrastSlider x) st)
        \<lparr>contrast := contrast (customization st), lastModified := t\<rparr>
      = (customization st)\<lparr>lastModified := t\<rparr>
   \<and> saturation (recordAfter idata now (SaturationSlider x) st) = x
   \<and> (recordAfter idata now (SaturationSlider x) st)
        \<lparr>saturation := saturation (customization st), lastModified := t\<rparr>
      = (customization st)\<lparr>lastModified := t\<rparr>
   \<and> platform (recordAfter idata now (PlatformSelect p) st) = p
   \<and> frameColor (recordAfter idata now (PlatformSelect p) st) = baseColor (PLATFORM_CONFIGS p)
   \<and> (recordAfter idata now (PlatformSelect p) st)
        \<lparr>platform := platform (customization st),
         frameColor := frameColor (customization st), lastModified := t\<rparr>
      = (customization st)\<lparr>lastModified := t\<rparr>
   \<and> slotImage s (recordAfter idata now (UploadLoaded s r) st) = r
   \<and> lastModified (recordAfter idata now (UploadLoaded s r) st) = now
   \<and> (recordAfter idata now (UploadLoaded Front r) st)
        \<lparr>frontImage := frontImage (customization st), lastModified := t\<rparr>
      = (customization st)\<lparr>lastModified := t\<rparr>
   \<and> (recordAfter idata now (UploadLoaded Back r) st)
        \<lparr>backImage := backImage (customization st), lastModified := t\<rparr>
      = (customization st)\<lparr>lastModified := t\<rparr>
   \<and> (recordAfter idata now (UploadLoaded Spine r) st)
        \<lparr>spineImage := spineImage (customization st), lastModified := t\<rparr>
      = (customization st)\<lparr>lastModified := t\<rparr>"
  by (cases s)
     (simp_all add: recordAfter_def setCustomization_def setTitle_def setFrameColor_def
       setBrightness_def setContrast_def setSaturation_def selectPlatform_def)

section \<open>Image upload\<close>

text \<open>
  C7. A finished upload to the front slot puts the uploaded image into \<open>frontImage\<close> and
  leaves \<open>backImage\<close> and \<open>spineImage\<close> as they were; likewise an upload to the back slot
  leaves front and spine, and an upload to the spine slot leaves front and back.
\<close>

theorem upload_leaves_other_slots:
  "frontImage (recordAfter idata now (UploadLoaded Front r) st) = r
   \<and> backImage (recordAfter idata now (UploadLoaded Front r) st) = backImage (customization st)
   \<and> spineImage (recordAfter idata now (UploadLoaded Front r) st) = spineImage (customization st)
   \<and> backImage (recordAfter idata now (UploadLoaded Back r) st) = r
   \<and> frontImage (recordAfter idata now (UploadLoaded Back r) st) = frontImage (customization st)
   \<and> spineImage (recordAfter idata now (UploadLoaded Back r) st) = spineImage (customization st)
   \<and> spineImage (recordAfter idata now (UploadLoaded Spine r) st) = r
   \<and> frontImage (recordAfter idata now (UploadLoaded Spine r) st) = frontImage (customization st)
   \<and> backImage (recordAfter idata now (UploadLoaded Spine r) st) = backImage (customization st)"
  by (simp add: recordAfter_def setCustomization_def)

text \<open>
  C10. A finished upload to any slot sets \<open>lastModified\<close> to the clock value read when
  the file has been read, and the targeted slot holds the uploaded image.
\<close>

theorem upload_stamps_lastModified:
  "lastModified (recordAfter idata now (UploadLoaded s r) st) = now
   \<and> slotImage s (recordAfter idata now (UploadLoaded s r) st) = r"
  by (cases s) (simp_all add: recordAfter_def setCustomization_def)

section \<open>The saved list\<close>

subsection \<open>Filtering by title\<close>



lemma distinct_upsert:
  "distinct (map f xs) \<Longrightarrow> distinct (map f (filter (\<lambda>d. f d \<noteq> f c) xs @ [c]))"
  by (auto simp: Let_def distinct_map_filter)

lemma nth_filter_holds: "i < length (filter P xs) \<Longrightarrow> P (filter P xs ! i)"
  using nth_mem [of i "filter P xs"] by simp

subsection \<open>The invariant holds in every reachable session\<close>




subsection \<open>A write that throws\<close>

text \<open>
  A save whose storage write throws: the list in memory is the new one, storage still
  holds the old list, and a later mount reads the old list.
\<close>

lemma save_threw_keeps_storage:
  "savedCustomizations (handle None 2000 (SaveClick Threw) halo_session)
     = [doom, gold_halo\<lparr>lastModified := 2000\<rparr>]
   \<and> localStorage (handle None 2000 (SaveClick Threw) halo_session) = Items [old_halo, doom]
   \<and> savedCustomizations
       (mount None 3000 (localStorage (handle None 2000 (SaveClick Threw) halo_session)))
     = [old_halo, doom]"
  by (simp add: Let_def halo_session_def gold_halo_def old_halo_def doom_def saveCustomization_def
      mount_def)

subsection \<open>Save, load, delete\<close>

text \<open>
  C3. After a save at time \<open>now\<close> the saved list ends with the current record stamped
  \<open>now\<close>, whether or not the storage write went through. Every card of the saved tab
  that carries the title of that record loads exactly this record: the current record
  then equals the saved one in every field, \<open>lastModified\<close> being the stamp of the
  save. When the write went through, a session mounted later on that storage sees the
  same list; when it threw, storage is what it was before the save.
\<close>

theorem save_then_load:
  "savedCustomizations (handle idata now (SaveClick w) st)
       ! (length (savedCustomizations (handle idata now (SaveClick w) st)) - 1)
     = (customization st)\<lparr>lastModified := now\<rparr>
   \<and> (\<forall>i < length (savedCustomizations (handle idata now (SaveClick w) st)).
        title (savedCustomizations (handle idata now (SaveClick w) st) ! i)
          = title (customization st)
        \<longrightarrow> customization (handle idata' now' (LoadClick i) (handle idata now (SaveClick w) st))
              = (customization st)\<lparr>lastModified := now\<rparr>)
   \<and> savedCustomizations (mount idata' now' (localStorage (handle idata now (SaveClick Written) st)))
     = savedCustomizations (handle idata now (SaveClick Written) st)
   \<and> localStorage (handle idata now (SaveClick Threw) st) = localStorage st"
  using nth_filter_holds [of _ "\<lambda>c. title c \<noteq> title (customization st)" "savedCustomizations st"]
  by (auto simp: Let_def saveCustomization_def loadCustomization_def mount_def nth_append)

theorem save_then_load_witness:
  "1 < length (savedCustomizations (handle None 2000 (SaveClick Threw) halo_session))
   \<and> title (savedCustomizations (handle None 2000 (SaveClick Threw) halo_session) ! 1)
       = title (customization halo_session)
   \<and> customization (handle None 3000 (LoadClick 1)
        (handle None 2000 (SaveClick Threw) halo_session))
       = gold_halo\<lparr>lastModified := 2000\<rparr>
   \<and> customization (handle None 3000 (LoadClick 1)
        (handle None 2000 (SaveClick Written) halo_session))
       = gold_halo\<lparr>lastModified := 2000\<rparr>"
  using save_then_load [of None 2000 Threw halo_session None 3000]
    save_then_load [of None 2000 Written halo_session None 3000]
  by (simp add: Let_def halo_session_def gold_halo_def old_halo_def doom_def saveCustomization_def
      loadCustomization_def)






section \<open>Auto-rotation in the viewer\<close>

lemma useFrame_mounted:
  "groupRef m = Some g \<Longrightarrow>
   \<exists>g'. useFrame t m = Inr (m\<lparr>groupRef := Some g'\<rparr>)
      \<and> rotation_y g' = rotation_y g + (if autoRotate m then 0.01 else 0)"
proof (cases "autoRotate m")
  case True
  assume g: "groupRef m = Some g"
  let ?g' = "g\<lparr>rotation_y := rotation_y g + 0.01,
                rotation_x := sin (t * 0.4) * 0.5,
                rotation_z := sin (t * 0.3) * 0.2\<rparr>"
  from True g have "useFrame t m = Inr (m\<lparr>groupRef := Some ?g'\<rparr>)"
    by (simp add: useFrame_def Let_def)
  moreover have "rotation_y ?g' = rotation_y g + 0.01"
    by simp
  ultimately show ?thesis using True by auto
next
  case False
  assume g: "groupRef m = Some g"
  show ?thesis
  proof (cases "hovered m")
    case True
    with False g have "useFrame t m = Inr (m\<lparr>groupRef := Some (setScalar 1.05 g)\<rparr>)"
      by (simp add: useFrame_def Let_def)
    moreover have "rotation_y (setScalar 1.05 g) = rotation_y g"
      by (simp add: setScalar_def)
    ultimately show ?thesis using False by auto
  next
    case h: False
    with False g have "useFrame t m = Inr (m\<lparr>groupRef := Some (setScalar 1 g)\<rparr>)"
      by (simp add: useFrame_def Let_def)
    moreover have "rotation_y (setScalar 1 g) = rotation_y g"
      by (simp add: setScalar_def)
    ultimately show ?thesis using False by auto
  qed
qed

lemma frames_mounted:
  "groupRef m = Some g \<Longrightarrow>
   \<exists>g'. frames ts m = Inr (m\<lparr>groupRef := Some g'\<rparr>)
      \<and> rotation_y g' = rotation_y g + (if autoRotate m then real (length ts) * 0.01 else 0)"
proof (induction ts arbitrary: m g)
  case Nil
  then show ?case by (cases m) auto
next
  case (Cons t ts)
  from useFrame_mounted [OF Cons.prems, of t] obtain g1 where
    step: "useFrame t m = Inr (m\<lparr>groupRef := Some g1\<rparr>)"
    and y1: "rotation_y g1 = rotation_y g + (if autoRotate m then 0.01 else 0)"
    by blast
  have "groupRef (m\<lparr>groupRef := Some g1\<rparr>) = Some g1" by simp
  from Cons.IH [OF this] obtain g' where
    run: "frames ts (m\<lparr>groupRef := Some g1\<rparr>) = Inr (m\<lparr>groupRef := Some g1, groupRef := Some g'\<rparr>)"
    and y': "rotation_y g' = rotation_y g1
               + (if autoRotate (m\<lparr>groupRef := Some g1\<rparr>) then real (length ts) * 0.01 else 0)"
    by blast
  from step run have "frames (t # ts) m = Inr (m\<lparr>groupRef := Some g'\<rparr>)" by simp
  moreover from y1 y' have "rotation_y g' = rotation_y g
      + (if autoRotate m then real (length (t # ts)) * 0.01 else 0)"
    by (simp add: algebra_simps)
  ultimately show ?case by blast
qed

text \<open>
  C8. A click negates the auto-rotate flag and touches nothing else. On a mounted model
  a frame always succeeds and changes only the group; the rotation about the Y axis is
  strictly larger after a frame in which the flag is set and the same after a frame in
  which it is not, whether or not the pointer hovers. The same holds over any non-empty
  run of frames.
\<close>

theorem click_toggles_frame_rotates:
  "autoRotate (toggleAutoRotate m) = (\<not> autoRotate m)
   \<and> groupRef (toggleAutoRotate m) = groupRef m
   \<and> hovered (toggleAutoRotate m) = hovered m
   \<and> (groupRef m = Some g \<longrightarrow>
        (\<exists>g'. useFrame t m = Inr (m\<lparr>groupRef := Some g'\<rparr>)
           \<and> (if autoRotate m then rotation_y g < rotation_y g'
               else rotation_y g' = rotation_y g)))
   \<and> (groupRef m = Some g \<and> ts \<noteq> [] \<longrightarrow>
        (\<exists>g'. frames ts m = Inr (m\<lparr>groupRef := Some g'\<rparr>)
           \<and> (if autoRotate m then rotation_y g < rotation_y g'
               else rotation_y g' = rotation_y g)))"
proof -
  have one: "\<exists>g'. useFrame t m = Inr (m\<lparr>groupRef := Some g'\<rparr>)
      \<and> (if autoRotate m then rotation_y g < rotation_y g' else rotation_y g' = rotation_y g)"
    if "groupRef m = Some g"
    using useFrame_mounted [OF that, of t] by auto
  have many: "\<exists>g'. frames ts m = Inr (m\<lparr>groupRef := Some g'\<rparr>)
      \<and> (if autoRotate m then rotation_y g < rotation_y g' else rotation_y g' = rotation_y g)"
    if "groupRef m = Some g" "ts \<noteq> []"
    using frames_mounted [OF that(1), of ts] that(2) by auto
  from one many show ?thesis by (simp add: toggleAutoRotate_def)
qed

theorem click_toggles_frame_rotates_witness:
  "groupRef BoxArtModel_mounted
     = Some \<lparr>rotation_x = - 0.1, rotation_y = 0.3, rotation_z = 0, scale = 1\<rparr>
   \<and> autoRotate BoxArtModel_mounted
   \<and> \<not> autoRotate (toggleAutoRotate BoxArtModel_mounted)
   \<and> (\<exists>g'. useFrame 2 BoxArtModel_mounted = Inr (BoxArtModel_mounted\<lparr>groupRef := Some g'\<rparr>)
          \<and> 0.3 < rotation_y g')
   \<and> (\<exists>g'. frames [1, 2] (toggleAutoRotate BoxArtModel_mounted)
               = Inr (toggleAutoRotate BoxArtModel_mounted\<lparr>groupRef := Some g'\<rparr>)
          \<and> rotation_y g' = 0.3)"
proof -
  let ?g = "\<lparr>rotation_x = - 0.1, rotation_y = 0.3, rotation_z = 0, scale = 1\<rparr> :: group3"
  have g: "groupRef BoxArtModel_mounted = Some ?g" and a: "autoRotate BoxArtModel_mounted"
    by (simp_all add: BoxArtModel_mounted_def)
  have g2: "groupRef (toggleAutoRotate BoxArtModel_mounted) = Some ?g"
    and a2: "\<not> autoRotate (toggleAutoRotate BoxArtModel_mounted)"
    by (simp_all add: BoxArtModel_mounted_def toggleAutoRotate_def)
  from click_toggles_frame_rotates [of BoxArtModel_mounted ?g 2 "[1, 2]"] g a
  have "\<exists>g'. useFrame 2 BoxArtModel_mounted = Inr (BoxArtModel_mounted\<lparr>groupRef := Some g'\<rparr>)
          \<and> 0.3 < rotation_y g'"
    by simp
  moreover from click_toggles_frame_rotates
      [of "toggleAutoRotate BoxArtModel_mounted" ?g 2 "[1, 2]"] g2 a2
  have "\<exists>g'. frames [1, 2] (toggleAutoRotate BoxArtModel_mounted)
               = Inr (toggleAutoRotate BoxArtModel_mounted\<lparr>groupRef := Some g'\<rparr>)
          \<and> rotation_y g' = 0.3"
    by simp
  ultimately show ?thesis using g a a2 by simp
qed

section \<open>Brightness, contrast and saturation in the preview\<close>

text \<open>
  C9. Two records that differ only in brightness, contrast and saturation give the same
  preview: the same rotation of the group, the same geometry and the same six
  materials, with the same colours and texture maps. The effect marks the same textures
  for both.
\<close>

theorem filters_do_not_reach_the_scene:
  "preview (c\<lparr>brightness := b, contrast := k, saturation := s\<rparr>) = preview c
   \<and> previewEffect (c\<lparr>brightness := b, contrast := k, saturation := s\<rparr>) = previewEffect c"
  by (simp add: preview_def previewEffect_def CustomizableBoxModel_def imageFilterEffect_def)

end
